theory Spec2Isabelle
  imports Main "HOL-Library.Word"
begin

section \<open>Python values used by nmt\_decoder.py\<close>

text \<open>
  An exception object, as far as the program looks at it: \<open>type(e).__name__\<close> and
  \<open>str(e)\<close>. Both are taken to be total; subclassing is not modelled, so
  \<open>except KeyboardInterrupt\<close> matches on the class name.
\<close>

datatype exn = Exn (exn_type: string) (exn_str: string)

text \<open>A Python float is kept as the 64 bits of its IEEE double; no arithmetic is done on it.\<close>

type_synonym pyfloat = "64 word"

datatype pynum = PyInt int | PyFloat pyfloat

text \<open>
  What \<open>json.loads\<close> returns. A dict is an association list in insertion order whose keys
  are distinct; the order carries no meaning.
\<close>

datatype json =
    JNull
  | JBool bool
  | JInt int
  | JFloat pyfloat
  | JStr string
  | JArr "json list"
  | JObj "(string \<times> json) list"

text \<open>
  The library functions the program calls and whose code is not part of it: \<open>json.loads\<close>,
  \<open>json.dumps\<close>, and the conversions of strings and floats done by \<open>int()\<close> and
  \<open>float()\<close>.
\<close>

record builtins =
  json_loads :: "string \<Rightarrow> exn + json"
  json_dumps :: "json \<Rightarrow> string"
  int_of_str :: "string \<Rightarrow> exn + int"
  int_of_float :: "pyfloat \<Rightarrow> exn + int"
  float_of_str :: "string \<Rightarrow> exn + pyfloat"
  float_of_int :: "int \<Rightarrow> exn + pyfloat"

definition ebind :: "exn + 'a \<Rightarrow> ('a \<Rightarrow> exn + 'b) \<Rightarrow> exn + 'b" where
  "ebind m f = (case m of Inl e \<Rightarrow> Inl e | Inr x \<Rightarrow> f x)"

definition TypeError :: "string \<Rightarrow> exn" where
  "TypeError msg = Exn ''TypeError'' msg"

definition KeyError :: "string \<Rightarrow> exn" where
  "KeyError k = Exn ''KeyError'' k"

definition AttributeError :: "string \<Rightarrow> exn" where
  "AttributeError msg = Exn ''AttributeError'' msg"

definition RuntimeError :: "string \<Rightarrow> exn" where
  "RuntimeError msg = Exn ''RuntimeError'' msg"

text \<open>\<open>int(x)\<close> on a value that came out of \<open>json.loads\<close>.\<close>

fun py_int :: "builtins \<Rightarrow> json \<Rightarrow> exn + int" where
  "py_int bi (JInt n) = Inr n"
| "py_int bi (JBool b) = Inr (if b then 1 else 0)"
| "py_int bi (JStr s) = int_of_str bi s"
| "py_int bi (JFloat f) = int_of_float bi f"
| "py_int bi _ = Inl (TypeError ''int() argument must be a string or a number'')"

text \<open>\<open>float(x)\<close> on a value that came out of \<open>json.loads\<close>.\<close>

fun py_float :: "builtins \<Rightarrow> json \<Rightarrow> exn + pyfloat" where
  "py_float bi (JFloat f) = Inr f"
| "py_float bi (JInt n) = float_of_int bi n"
| "py_float bi (JBool b) = float_of_int bi (if b then 1 else 0)"
| "py_float bi (JStr s) = float_of_str bi s"
| "py_float bi _ = Inl (TypeError ''float() argument must be a string or a number'')"

text \<open>\<open>obj[k]\<close> with a string key: only a dict accepts it.\<close>

fun getitem :: "json \<Rightarrow> string \<Rightarrow> exn + json" where
  "getitem (JObj d) k = (case map_of d k of None \<Rightarrow> Inl (KeyError k) | Some v \<Rightarrow> Inr v)"
| "getitem _ k = Inl (TypeError ''indices must be integers'')"

text \<open>
  \<open>k in obj\<close>. Both uses in the program come after \<open>obj[...]\<close> has succeeded with a string
  key, so \<open>obj\<close> is a dict there; the other cases are never evaluated.
\<close>

fun has_key :: "json \<Rightarrow> string \<Rightarrow> bool" where
  "has_key (JObj d) k = (map_of d k \<noteq> None)"
| "has_key _ k = False"

text \<open>\<open>for x in v\<close>: a list gives its elements, a dict its keys, a string its characters.\<close>

fun py_iter :: "json \<Rightarrow> exn + json list" where
  "py_iter (JArr xs) = Inr xs"
| "py_iter (JObj d) = Inr (map (\<lambda>kv. JStr (fst kv)) d)"
| "py_iter (JStr s) = Inr (map (\<lambda>c. JStr [c]) s)"
| "py_iter _ = Inl (TypeError ''object is not iterable'')"

text \<open>
  \<open>s.split(' ')\<close>: cut at every single space, keeping empty pieces; the result is never
  empty (\<open>''.split(' ') == ['']\<close>).
\<close>

fun split_space :: "string \<Rightarrow> string list" where
  "split_space [] = [[]]"
| "split_space (c # cs) =
     (if c = CHR '' '' then [] # split_space cs
      else (case split_space cs of
              [] \<Rightarrow> [[c]]
            | w # ws \<Rightarrow> (c # w) # ws))"

text \<open>\<open>v.split(' ')\<close> on a JSON value: only a string has the method.\<close>

fun py_split :: "json \<Rightarrow> exn + string list" where
  "py_split (JStr s) = Inr (split_space s)"
| "py_split _ = Inl (AttributeError ''object has no attribute split'')"

text \<open>\<open>' '.join(xs)\<close>.\<close>

fun join_space :: "string list \<Rightarrow> string" where
  "join_space [] = []"
| "join_space [w] = w"
| "join_space (w # v # ws) = w @ CHR '' '' # join_space (v # ws)"

text \<open>\<open>d[k] = v\<close> on a dict.\<close>

fun setitem :: "(string \<times> json) list \<Rightarrow> string \<Rightarrow> json \<Rightarrow> (string \<times> json) list" where
  "setitem [] k v = [(k, v)]"
| "setitem (p # ps) k v = (if fst p = k then (k, v) # ps else p # setitem ps k v)"

section \<open>The message model\<close>

text \<open>
  Modelled from the spec: the class \<open>Suggestion\<close> of module \<open>nmt\<close>, which is imported and
  not defined in nmt\_decoder.py. The spec gives it source tokens, target tokens and a score;
  the constructor call \<open>Suggestion(source, target, score)\<close> stores the three.
\<close>

record suggestion =
  sug_source :: "string list"
  sug_target :: "string list"
  sug_score :: pynum

definition Suggestion :: "string list \<Rightarrow> string list \<Rightarrow> pynum \<Rightarrow> suggestion" where
  "Suggestion src tgt sc = \<lparr>sug_source = src, sug_target = tgt, sug_score = sc\<rparr>"

record request =
  req_id :: int
  req_source :: "string list"
  req_suggestions :: "suggestion list"

definition TranslationRequest :: "int \<Rightarrow> string list \<Rightarrow> suggestion list option \<Rightarrow> request" where
  "TranslationRequest rid src sugs =
     \<lparr>req_id = rid, req_source = src,
      req_suggestions = (case sugs of Some ss \<Rightarrow> ss | None \<Rightarrow> [])\<rparr>"

text \<open>The body of the loop over \<open>obj['suggestions']\<close>, for one \<open>sobj\<close>.\<close>

definition parse_suggestion :: "builtins \<Rightarrow> json \<Rightarrow> exn + suggestion" where
  "parse_suggestion bi sobj =
     ebind (getitem sobj ''source'') (\<lambda>v.
     ebind (py_split v) (\<lambda>suggestion_source.
     ebind (getitem sobj ''target'') (\<lambda>v.
     ebind (py_split v) (\<lambda>suggestion_target.
     ebind (if has_key sobj ''score''
            then ebind (getitem sobj ''score'') (\<lambda>v.
                 ebind (py_float bi v) (\<lambda>f. Inr (PyFloat f)))
            else Inr (PyInt 0)) (\<lambda>suggestion_score.
     Inr (Suggestion suggestion_source suggestion_target suggestion_score))))))"

fun parse_suggestions :: "builtins \<Rightarrow> json list \<Rightarrow> exn + suggestion list" where
  "parse_suggestions bi [] = Inr []"
| "parse_suggestions bi (sobj # rest) =
     ebind (parse_suggestion bi sobj) (\<lambda>s.
     ebind (parse_suggestions bi rest) (\<lambda>ss. Inr (s # ss)))"

text \<open>\<open>TranslationRequest.from_json_string\<close> after \<open>json.loads\<close>.\<close>

definition from_json_obj :: "builtins \<Rightarrow> json \<Rightarrow> exn + request" where
  "from_json_obj bi obj =
     ebind (getitem obj ''id'') (\<lambda>v.
     ebind (py_int bi v) (\<lambda>rid.
     ebind (getitem obj ''source'') (\<lambda>v.
     ebind (py_split v) (\<lambda>source.
     ebind (if has_key obj ''suggestions''
            then ebind (getitem obj ''suggestions'') (\<lambda>v.
                 ebind (py_iter v) (parse_suggestions bi))
            else Inr []) (\<lambda>suggestions.
     Inr (TranslationRequest rid source (Some suggestions)))))))"

definition from_json_string :: "builtins \<Rightarrow> string \<Rightarrow> exn + request" where
  "from_json_string bi json_string = ebind (json_loads bi json_string) (from_json_obj bi)"

record response =
  resp_id :: int
  translation :: "string list option"
  error_type :: "string option"
  error_message :: "string option"

text \<open>\<open>TranslationResponse.__init__\<close>.\<close>

definition TranslationResponse :: "int \<Rightarrow> string list option \<Rightarrow> exn option \<Rightarrow> response" where
  "TranslationResponse rid transl exception =
     \<lparr>resp_id = rid,
      translation = transl,
      error_type = (case exception of Some e \<Rightarrow> Some (exn_type e) | None \<Rightarrow> None),
      error_message = (case exception of
                         Some e \<Rightarrow> if exn_str e \<noteq> [] then Some (exn_str e) else None
                       | None \<Rightarrow> None)\<rparr>"

text \<open>The dict \<open>jobj\<close> that \<open>to_json_string\<close> builds and hands to \<open>json.dumps\<close>.\<close>

definition to_json_obj :: "response \<Rightarrow> json" where
  "to_json_obj r =
     (let jobj = [(''id'', JInt (resp_id r))] in
      case translation r of
        Some t \<Rightarrow> JObj (setitem jobj ''translation'' (JStr (join_space t)))
      | None \<Rightarrow>
          (let error = [(''type'', (case error_type r of Some n \<Rightarrow> JStr n | None \<Rightarrow> JNull))];
               error = (case error_message r of
                          Some m \<Rightarrow> setitem error ''message'' (JStr m)
                        | None \<Rightarrow> error)
           in JObj (setitem jobj ''error'' (JObj error))))"

definition to_json_string :: "builtins \<Rightarrow> response \<Rightarrow> string" where
  "to_json_string bi r = json_dumps bi (to_json_obj r)"

section \<open>The engine\<close>

text \<open>
  Modelled from the spec: the decoding engine (class \<open>OpenNMTDecoder\<close> of module
  \<open>nmt.opennmt\<close>, imported and not defined in nmt\_decoder.py). The spec gives it a
  thread count and \<open>translate(sourceTokens, suggestions)\<close>, which returns the target
  tokens or raises. It is a parameter of everything below.
\<close>

record decoder =
  number_of_threads :: nat
  translate :: "string list \<Rightarrow> suggestion list \<Rightarrow> exn + string list"

section \<open>The controller and its threads\<close>

text \<open>
  What a queue can hold: the queues are untyped, and the program puts request objects,
  response objects and one string on them.
\<close>

datatype pyobj = PyStr string | PyRequest request | PyResponse response

definition POISON_PILL :: string where
  "POISON_PILL = ''__POISON_PILL__''"

text \<open>The test \<open>isinstance(x, basestring) and x == MainController.POISON_PILL\<close>.\<close>

fun is_poison_pill :: "pyobj \<Rightarrow> bool" where
  "is_poison_pill (PyStr s) = (s = POISON_PILL)"
| "is_poison_pill _ = False"

text \<open>
  The \<open>try\<close>/\<open>except BaseException\<close> of \<open>ExecutorThread.run\<close> for a request object.
  The \<open>print\<close> inside the \<open>try\<close> goes to the diagnostic stream (\<open>sys.stdout\<close> was set to
  \<open>sys.stderr\<close> by the constructor) and evaluates \<open>to_json_string\<close>, which is total here;
  it is left out.
\<close>

definition respond :: "decoder \<Rightarrow> request \<Rightarrow> response" where
  "respond dec request =
     (case translate dec (req_source request) (req_suggestions request) of
        Inr transl \<Rightarrow> TranslationResponse (req_id request) (Some transl) None
      | Inl e \<Rightarrow> TranslationResponse (req_id request) None (Some e))"

text \<open>
  The same block for any dequeued object that is not the poison pill. A response object
  has no \<open>source\<close>, the handler catches the AttributeError and finds an \<open>id\<close>; a string has
  no \<open>id\<close> either, so the handler raises and the thread dies (\<open>None\<close>).
\<close>

fun execute :: "decoder \<Rightarrow> pyobj \<Rightarrow> response option" where
  "execute dec (PyRequest request) = Some (respond dec request)"
| "execute dec (PyResponse r) =
     Some (TranslationResponse (resp_id r) None
             (Some (AttributeError ''TranslationResponse instance has no attribute 'source' '')))"
| "execute dec (PyStr s) = None"

text \<open>
  Where a thread is: not started, blocked in \<open>get()\<close> at the top of its loop, holding the
  object it dequeued, returned from \<open>run\<close>, or dead from an uncaught exception.
\<close>

datatype tstate = NotStarted | AtGet | Holding pyobj | Returned | Died

text \<open>
  Where the main thread is in \<open>serve_forever\<close> and \<open>_close\<close>. The positions inside \<open>_close\<close>
  carry the exception that the \<open>finally\<close> clause will re-raise, if any.
\<close>

datatype cpc =
    CStartPrinter
  | CStartWorker nat
  | CServe
  | CClearIn "exn option"
  | CClearOut "exn option"
  | CPutIn nat "exn option"
  | CPutOut "exn option"
  | CJoinWorker nat "exn option"
  | CJoinPrinter "exn option"
  | CDone "exn option"

text \<open>
  What \<open>sys.stdin.readline()\<close> does next: it returns a line, or a KeyboardInterrupt is
  raised while the main thread waits in it. An exhausted list is the end of the stream.
\<close>

datatype stdin_event = Line string | Interrupt

record state =
  stdin :: "stdin_event list"
  in_queue :: "pyobj list"
  out_queue :: "pyobj list"
  workers :: "tstate list"
  printer :: tstate
  main :: cpc
  stdout :: string

datatype actor = Main | Executor nat | Printer

datatype event =
    StartPrinter
  | StartWorker nat
  | EndOfInput
  | Interrupted
  | Raised exn
  | PutIn pyobj
  | PutOut pyobj
  | ClearIn
  | ClearOut
  | JoinWorker nat
  | JoinPrinter
  | WorkerGet nat pyobj
  | WorkerPut nat response
  | WorkerDied nat
  | PrinterGet pyobj
  | PrinterWrite string
  | PrinterDied

text \<open>\<open>MainController.__init__\<close>, with the input stream the process will read.\<close>

definition MainController :: "decoder \<Rightarrow> stdin_event list \<Rightarrow> state" where
  "MainController dec input =
     \<lparr>stdin = input, in_queue = [], out_queue = [],
      workers = replicate (number_of_threads dec) NotStarted,
      printer = NotStarted, main = CStartPrinter, stdout = []\<rparr>"

text \<open>The next position of the three \<open>for ... in self._workers\<close> loops.\<close>

definition start_pc :: "nat \<Rightarrow> nat \<Rightarrow> cpc" where
  "start_pc k n = (if k < n then CStartWorker k else CServe)"

definition put_pc :: "nat \<Rightarrow> nat \<Rightarrow> exn option \<Rightarrow> cpc" where
  "put_pc k n p = (if k < n then CPutIn k p else CPutOut p)"

definition join_pc :: "nat \<Rightarrow> nat \<Rightarrow> exn option \<Rightarrow> cpc" where
  "join_pc k n p = (if k < n then CJoinWorker k p else CJoinPrinter p)"

text \<open>
  \<open>try: ... except KeyboardInterrupt: pass finally: self._close()\<close>: an exception raised
  in the body enters \<open>_close\<close>, and is pending unless it is a KeyboardInterrupt.
\<close>

definition finally_pc :: "exn \<Rightarrow> cpc" where
  "finally_pc e = CClearIn (if exn_type e = ''KeyboardInterrupt'' then None else Some e)"

text \<open>\<open>t.join()\<close>: \<open>None\<close> while the thread runs, an error if it was never started.\<close>

fun join :: "tstate \<Rightarrow> (exn + unit) option" where
  "join NotStarted = Some (Inl (RuntimeError ''cannot join thread before it is started''))"
| "join Returned = Some (Inr ())"
| "join Died = Some (Inr ())"
| "join _ = None"

text \<open>
  One step of the main thread. Reading a line, parsing it and putting the request are one
  step: only the put touches shared state.
\<close>

definition main_step :: "builtins \<Rightarrow> state \<Rightarrow> (event \<times> state) option" where
  "main_step bi s =
     (let n = length (workers s) in
      case main s of
        CStartPrinter \<Rightarrow>
          (if printer s = NotStarted
           then Some (StartPrinter, s\<lparr>printer := AtGet, main := start_pc 0 n\<rparr>)
           else let e = RuntimeError ''threads can only be started once''
                in Some (Raised e, s\<lparr>main := finally_pc e\<rparr>))
      | CStartWorker k \<Rightarrow>
          (if k < n
           then (if workers s ! k = NotStarted
                 then Some (StartWorker k,
                            s\<lparr>workers := (workers s)[k := AtGet], main := start_pc (Suc k) n\<rparr>)
                 else let e = RuntimeError ''threads can only be started once''
                      in Some (Raised e, s\<lparr>main := finally_pc e\<rparr>))
           else None)
      | CServe \<Rightarrow>
          (case stdin s of
             [] \<Rightarrow> Some (EndOfInput, s\<lparr>main := CClearIn None\<rparr>)
           | Interrupt # rest \<Rightarrow> Some (Interrupted, s\<lparr>stdin := rest, main := CClearIn None\<rparr>)
           | Line line # rest \<Rightarrow>
               (if line = [] then Some (EndOfInput, s\<lparr>stdin := rest, main := CClearIn None\<rparr>)
                else (case from_json_string bi line of
                        Inr request \<Rightarrow>
                          Some (PutIn (PyRequest request),
                                s\<lparr>stdin := rest, in_queue := in_queue s @ [PyRequest request]\<rparr>)
                      | Inl e \<Rightarrow> Some (Raised e, s\<lparr>stdin := rest, main := finally_pc e\<rparr>))))
      | CClearIn p \<Rightarrow> Some (ClearIn, s\<lparr>in_queue := [], main := CClearOut p\<rparr>)
      | CClearOut p \<Rightarrow> Some (ClearOut, s\<lparr>out_queue := [], main := put_pc 0 n p\<rparr>)
      | CPutIn k p \<Rightarrow>
          (if k < n
           then Some (PutIn (PyStr POISON_PILL),
                      s\<lparr>in_queue := in_queue s @ [PyStr POISON_PILL], main := put_pc (Suc k) n p\<rparr>)
           else None)
      | CPutOut p \<Rightarrow>
          Some (PutOut (PyStr POISON_PILL),
                s\<lparr>out_queue := out_queue s @ [PyStr POISON_PILL], main := join_pc 0 n p\<rparr>)
      | CJoinWorker k p \<Rightarrow>
          (if k < n
           then (case join (workers s ! k) of
                   None \<Rightarrow> None
                 | Some (Inl e) \<Rightarrow> Some (Raised e, s\<lparr>main := CDone (Some e)\<rparr>)
                 | Some (Inr u) \<Rightarrow> Some (JoinWorker k, s\<lparr>main := join_pc (Suc k) n p\<rparr>))
           else None)
      | CJoinPrinter p \<Rightarrow>
          (case join (printer s) of
             None \<Rightarrow> None
           | Some (Inl e) \<Rightarrow> Some (Raised e, s\<lparr>main := CDone (Some e)\<rparr>)
           | Some (Inr u) \<Rightarrow> Some (JoinPrinter, s\<lparr>main := CDone p\<rparr>))
      | CDone p \<Rightarrow> None)"

text \<open>One step of \<open>ExecutorThread.run\<close> for worker \<open>i\<close>: the \<open>get\<close>, or the call and the \<open>put\<close>.\<close>

definition executor_step :: "decoder \<Rightarrow> nat \<Rightarrow> state \<Rightarrow> (event \<times> state) option" where
  "executor_step dec i s =
     (if i < length (workers s)
      then (case workers s ! i of
              AtGet \<Rightarrow>
                (case in_queue s of
                   [] \<Rightarrow> None
                 | x # q \<Rightarrow>
                     Some (WorkerGet i x,
                           s\<lparr>in_queue := q,
                             workers := (workers s)
                               [i := if is_poison_pill x then Returned else Holding x]\<rparr>))
            | Holding x \<Rightarrow>
                (case execute dec x of
                   Some r \<Rightarrow>
                     Some (WorkerPut i r,
                           s\<lparr>out_queue := out_queue s @ [PyResponse r],
                             workers := (workers s)[i := AtGet]\<rparr>)
                 | None \<Rightarrow> Some (WorkerDied i, s\<lparr>workers := (workers s)[i := Died]\<rparr>))
            | _ \<Rightarrow> None)
      else None)"

text \<open>
  One step of \<open>PrinterThread.run\<close>: the \<open>get\<close>, or the two writes and the flush. An object
  without \<open>to_json_string\<close> kills the thread.
\<close>

definition printer_step :: "builtins \<Rightarrow> state \<Rightarrow> (event \<times> state) option" where
  "printer_step bi s =
     (case printer s of
        AtGet \<Rightarrow>
          (case out_queue s of
             [] \<Rightarrow> None
           | x # q \<Rightarrow>
               Some (PrinterGet x,
                     s\<lparr>out_queue := q,
                       printer := if is_poison_pill x then Returned else Holding x\<rparr>))
      | Holding x \<Rightarrow>
          (case x of
             PyResponse r \<Rightarrow>
               Some (PrinterWrite (to_json_string bi r),
                     s\<lparr>stdout := stdout s @ to_json_string bi r @ [CHR 0x0A],
                       printer := AtGet\<rparr>)
           | _ \<Rightarrow> Some (PrinterDied, s\<lparr>printer := Died\<rparr>))
      | _ \<Rightarrow> None)"

fun step :: "builtins \<Rightarrow> decoder \<Rightarrow> actor \<Rightarrow> state \<Rightarrow> (event \<times> state) option" where
  "step bi dec Main s = main_step bi s"
| "step bi dec (Executor i) s = executor_step dec i s"
| "step bi dec Printer s = printer_step bi s"

text \<open>
  A run under a schedule: the threads take their steps in the order the list gives.
  \<open>None\<close> when the schedule asks a thread to step that is blocked or has ended.
\<close>

fun exec :: "builtins \<Rightarrow> decoder \<Rightarrow> actor list \<Rightarrow> state \<Rightarrow> (event list \<times> state) option" where
  "exec bi dec [] s = Some ([], s)"
| "exec bi dec (a # sched) s =
     (case step bi dec a s of
        None \<Rightarrow> None
      | Some (e, s') \<Rightarrow>
          (case exec bi dec sched s' of
             None \<Rightarrow> None
           | Some (es, s'') \<Rightarrow> Some (e # es, s'')))"

section \<open>Example inputs\<close>

text \<open>
  Three input lines, and the library functions tabulated at the arguments the examples
  below give them.
\<close>

definition demo_line1 :: string where
  "demo_line1 = ''{\"id\": 1, \"source\": \"a b c\"}'' @ [CHR 0x0A]"

definition demo_line2 :: string where
  "demo_line2 = ''{\"id\": 2, \"source\": \"d e\"}'' @ [CHR 0x0A]"

definition demo_bad_line :: string where
  "demo_bad_line = ''{\"id\": 3}'' @ [CHR 0x0A]"

definition demo_builtins :: builtins where
  "demo_builtins =
     \<lparr>json_loads = (\<lambda>s.
        if s = demo_line1 then Inr (JObj [(''id'', JInt 1), (''source'', JStr ''a b c'')])
        else if s = demo_line2 then Inr (JObj [(''id'', JInt 2), (''source'', JStr ''d e'')])
        else if s = demo_bad_line then Inr (JObj [(''id'', JInt 3)])
        else Inl (Exn ''ValueError'' ''No JSON object could be decoded'')),
      json_dumps = (\<lambda>j.
        if j = JObj [(''id'', JInt 1), (''translation'', JStr ''a b c'')]
        then ''{\"id\": 1, \"translation\": \"a b c\"}''
        else if j = JObj [(''id'', JInt 2), (''translation'', JStr ''d e'')]
        then ''{\"id\": 2, \"translation\": \"d e\"}''
        else if j = JObj [(''id'', JInt 2),
                          (''error'', JObj [(''type'', JStr ''RuntimeError''),
                                            (''message'', JStr ''out of memory'')])]
        then ''{\"id\": 2, \"error\": {\"type\": \"RuntimeError\", \"message\": \"out of memory\"}}''
        else ''{}''),
      int_of_str = (\<lambda>s. Inl (Exn ''ValueError'' ''invalid literal for int()'')),
      int_of_float = (\<lambda>f. Inl (Exn ''OverflowError'' ''cannot convert float infinity to integer'')),
      float_of_str = (\<lambda>s. if s = ''0.5'' then Inr 0x3FE0000000000000
                          else Inl (Exn ''ValueError'' ''could not convert string to float'')),
      float_of_int = (\<lambda>n. if n = 0 then Inr 0
                          else Inl (Exn ''OverflowError'' ''long int too large to convert to float''))\<rparr>"

definition identity_engine :: "nat \<Rightarrow> decoder" where
  "identity_engine n = \<lparr>number_of_threads = n, translate = (\<lambda>src sugs. Inr src)\<rparr>"

text \<open>The line of the example call at the end of nmt\_decoder.py, shortened, once parsed.\<close>

definition demo_suggestions_line_obj :: json where
  "demo_suggestions_line_obj =
     JObj [(''id'', JInt 7), (''source'', JStr ''hello and goodbye''),
           (''suggestions'',
              JArr [JObj [(''source'', JStr ''A''), (''target'', JStr ''a''), (''score'', JStr ''0.5'')],
                    JObj [(''source'', JStr ''x''), (''target'', JStr ''y'')]])]"

fun is_request :: "pyobj \<Rightarrow> bool" where
  "is_request (PyRequest r) = True"
| "is_request _ = False"

fun is_response :: "pyobj \<Rightarrow> bool" where
  "is_response (PyResponse r) = True"
| "is_response _ = False"

fun is_main_event :: "event \<Rightarrow> bool" where
  "is_main_event (WorkerGet i x) = False"
| "is_main_event (WorkerPut i r) = False"
| "is_main_event (WorkerDied i) = False"
| "is_main_event (PrinterGet x) = False"
| "is_main_event (PrinterWrite l) = False"
| "is_main_event PrinterDied = False"
| "is_main_event _ = True"

definition close_events :: "nat \<Rightarrow> event list" where
  "close_events n =
     [ClearIn, ClearOut] @ replicate n (PutIn (PyStr POISON_PILL)) @ [PutOut (PyStr POISON_PILL)]
     @ map JoinWorker [0..<n] @ [JoinPrinter]"

fun close_rest :: "nat \<Rightarrow> cpc \<Rightarrow> event list" where
  "close_rest n (CClearIn p) = close_events n"
| "close_rest n (CClearOut p) = tl (close_events n)"
| "close_rest n (CPutIn k p) =
     replicate (n - k) (PutIn (PyStr POISON_PILL)) @ [PutOut (PyStr POISON_PILL)]
     @ map JoinWorker [0..<n] @ [JoinPrinter]"
| "close_rest n (CPutOut p) = PutOut (PyStr POISON_PILL) # map JoinWorker [0..<n] @ [JoinPrinter]"
| "close_rest n (CJoinWorker k p) = map JoinWorker [k..<n] @ [JoinPrinter]"
| "close_rest n (CJoinPrinter p) = [JoinPrinter]"
| "close_rest n _ = []"

fun pending :: "cpc \<Rightarrow> exn option" where
  "pending (CClearIn p) = p"
| "pending (CClearOut p) = p"
| "pending (CPutIn k p) = p"
| "pending (CPutOut p) = p"
| "pending (CJoinWorker k p) = p"
| "pending (CJoinPrinter p) = p"
| "pending (CDone p) = p"
| "pending _ = None"

fun closing :: "cpc \<Rightarrow> bool" where
  "closing CStartPrinter = False"
| "closing (CStartWorker k) = False"
| "closing CServe = False"
| "closing _ = True"

definition started :: "state \<Rightarrow> bool" where
  "started s = (printer s \<noteq> NotStarted \<and> NotStarted \<notin> set (workers s))"

fun pc_ok :: "nat \<Rightarrow> cpc \<Rightarrow> bool" where
  "pc_ok n (CStartWorker k) = (k < n)"
| "pc_ok n (CPutIn k p) = (k < n)"
| "pc_ok n (CJoinWorker k p) = (k < n)"
| "pc_ok n _ = True"


fun holds_only :: "(pyobj \<Rightarrow> bool) \<Rightarrow> tstate \<Rightarrow> bool" where
  "holds_only P (Holding x) = P x"
| "holds_only P Died = False"
| "holds_only P _ = True"

definition wf :: "state \<Rightarrow> bool" where
  "wf s =
     ((\<forall>x\<in>set (in_queue s). is_request x \<or> x = PyStr POISON_PILL)
      \<and> (\<forall>x\<in>set (out_queue s). is_response x \<or> x = PyStr POISON_PILL)
      \<and> (\<forall>w\<in>set (workers s). holds_only is_request w)
      \<and> holds_only is_response (printer s))"

fun gets_of :: "nat \<Rightarrow> event list \<Rightarrow> request list" where
  "gets_of i [] = []"
| "gets_of i (WorkerGet j (PyRequest r) # es) = (if j = i then r # gets_of i es else gets_of i es)"
| "gets_of i (e # es) = gets_of i es"



definition failing_engine :: "nat \<Rightarrow> decoder" where
  "failing_engine n =
     \<lparr>number_of_threads = n,
      translate = (\<lambda>src sugs. if src = [''d'', ''e'']
                              then Inl (Exn ''RuntimeError'' ''out of memory'')
                              else Inr src)\<rparr>"

definition served_schedule :: "actor list" where
  "served_schedule =
     [Main, Main, Main, Executor 0, Executor 0, Printer, Printer,
      Main, Main, Main, Main, Main, Executor 0, Printer, Main, Main]"

definition drain_schedule :: "actor list" where
  "drain_schedule =
     [Main, Main, Main, Main, Executor 0,
      Main, Main, Main, Main, Main, Printer, Executor 0, Executor 0, Main, Main]"

definition demo_request1 :: request where
  "demo_request1 = \<lparr>req_id = 1, req_source = [''a'', ''b'', ''c''], req_suggestions = []\<rparr>"

definition demo_request2 :: request where
  "demo_request2 = \<lparr>req_id = 2, req_source = [''d'', ''e''], req_suggestions = []\<rparr>"

definition demo_response1 :: response where
  "demo_response1 = \<lparr>resp_id = 1, translation = Some [''a'', ''b'', ''c''],
                      error_type = None, error_message = None\<rparr>"

definition demo_error2 :: response where
  "demo_error2 = \<lparr>resp_id = 2, translation = None,
                   error_type = Some ''RuntimeError'', error_message = Some ''out of memory''\<rparr>"

definition fault_schedule :: "actor list" where
  "fault_schedule =
     [Main, Main, Main, Main, Executor 0, Executor 0, Executor 0, Executor 0,
      Printer, Printer, Printer, Printer,
      Main, Main, Main, Main, Main, Executor 0, Printer, Main, Main]"

definition fault_trace :: "event list" where
  "fault_trace =
     [StartPrinter, StartWorker 0, PutIn (PyRequest demo_request1), PutIn (PyRequest demo_request2),
      WorkerGet 0 (PyRequest demo_request1), WorkerPut 0 demo_response1,
      WorkerGet 0 (PyRequest demo_request2), WorkerPut 0 demo_error2,
      PrinterGet (PyResponse demo_response1),
      PrinterWrite ''{\"id\": 1, \"translation\": \"a b c\"}'',
      PrinterGet (PyResponse demo_error2),
      PrinterWrite ''{\"id\": 2, \"error\": {\"type\": \"RuntimeError\", \"message\": \"out of memory\"}}'',
      EndOfInput, ClearIn, ClearOut, PutIn (PyStr ''__POISON_PILL__''),
      PutOut (PyStr ''__POISON_PILL__''), WorkerGet 0 (PyStr ''__POISON_PILL__''),
      PrinterGet (PyStr ''__POISON_PILL__''), JoinWorker 0, JoinPrinter]"

definition drain_trace :: "event list" where
  "drain_trace =
     [StartPrinter, StartWorker 0, PutIn (PyRequest demo_request1), PutIn (PyRequest demo_request2),
      WorkerGet 0 (PyRequest demo_request1),
      EndOfInput, ClearIn, ClearOut, PutIn (PyStr ''__POISON_PILL__''),
      PutOut (PyStr ''__POISON_PILL__''), PrinterGet (PyStr ''__POISON_PILL__''),
      WorkerPut 0 demo_response1, WorkerGet 0 (PyStr ''__POISON_PILL__''),
      JoinWorker 0, JoinPrinter]"

definition drain_final :: state where
  "drain_final =
     \<lparr>stdin = [], in_queue = [], out_queue = [PyResponse demo_response1],
      workers = [Returned], printer = Returned, main = CDone None, stdout = []\<rparr>"

definition fault_final :: state where
  "fault_final =
     \<lparr>stdin = [], in_queue = [], out_queue = [], workers = [Returned], printer = Returned,
      main = CDone None,
      stdout = ''{\"id\": 1, \"translation\": \"a b c\"}'' @ [CHR 0x0A]
             @ ''{\"id\": 2, \"error\": {\"type\": \"RuntimeError\", \"message\": \"out of memory\"}}''
             @ [CHR 0x0A]\<rparr>"

definition holding_state :: state where
  "holding_state =
     \<lparr>stdin = [], in_queue = [PyRequest demo_request2], out_queue = [],
      workers = [Holding (PyRequest demo_request1)], printer = AtGet, main = CServe,
      stdout = []\<rparr>"

definition holding_schedule :: "actor list" where
  "holding_schedule =
     [Main, Main, Main, Main, Main, Printer, Executor 0, Executor 0, Main, Main]"












definition malformed :: "builtins \<Rightarrow> string \<Rightarrow> bool" where
  "malformed bi line =
     (case json_loads bi line of
        Inl e \<Rightarrow> True
      | Inr (JObj d) \<Rightarrow>
          (case map_of d ''id'' of
             None \<Rightarrow> True
           | Some v \<Rightarrow>
               (case py_int bi v of
                  Inl e \<Rightarrow> True
                | Inr n \<Rightarrow> (case map_of d ''source'' of Some (JStr src) \<Rightarrow> False | _ \<Rightarrow> True)))
      | Inr _ \<Rightarrow> True)"

definition bad_line_schedule :: "actor list" where
  "bad_line_schedule =
     [Main, Main, Main, Executor 0, Executor 0, Printer, Printer,
      Main, Main, Main, Main, Main, Executor 0, Printer, Main, Main]"

definition bad_line_trace :: "event list" where
  "bad_line_trace =
     [StartPrinter, StartWorker 0, PutIn (PyRequest demo_request1),
      WorkerGet 0 (PyRequest demo_request1), WorkerPut 0 demo_response1,
      PrinterGet (PyResponse demo_response1),
      PrinterWrite ''{\"id\": 1, \"translation\": \"a b c\"}'',
      Raised (Exn ''KeyError'' ''source''),
      ClearIn, ClearOut, PutIn (PyStr ''__POISON_PILL__''), PutOut (PyStr ''__POISON_PILL__''),
      WorkerGet 0 (PyStr ''__POISON_PILL__''), PrinterGet (PyStr ''__POISON_PILL__''),
      JoinWorker 0, JoinPrinter]"

definition bad_line_final :: state where
  "bad_line_final =
     \<lparr>stdin = [Line demo_line2], in_queue = [], out_queue = [], workers = [Returned],
      printer = Returned, main = CDone (Some (Exn ''KeyError'' ''source'')),
      stdout = ''{\"id\": 1, \"translation\": \"a b c\"}'' @ [CHR 0x0A]\<rparr>"

definition serving_state :: state where
  "serving_state =
     \<lparr>stdin = [Line demo_bad_line, Line demo_line2], in_queue = [], out_queue = [],
      workers = [AtGet], printer = AtGet, main = CServe,
      stdout = ''{\"id\": 1, \"translation\": \"a b c\"}'' @ [CHR 0x0A]\<rparr>"

(*DEFS-END*)

section \<open>The codec\<close>

lemma ebind_simps [simp]: "ebind (Inl e) f = Inl e" "ebind (Inr x) f = f x"
  by (simp_all add: ebind_def)

lemma split_space_not_Nil: "split_space s \<noteq> []"
  by (induction s) (auto split: list.splits)

lemma join_split_space: "join_space (split_space s) = s"
proof (induction s)
  case Nil
  show ?case by simp
next
  case (Cons c cs)
  obtain w ws where sp: "split_space cs = w # ws"
    using split_space_not_Nil [of cs] by (cases "split_space cs") auto
  show ?case using Cons sp by (cases ws) auto
qed

text \<open>
  Claim C4. A line that is the object \<open>{"id": n, "source": s}\<close>, processed with an engine
  that returns its source tokens, gives the response \<open>{"id": n, "translation": s}\<close>:
  splitting \<open>s\<close> at single spaces and joining the pieces with single spaces gives \<open>s\<close> back.
\<close>

theorem roundtrip_identity:
  assumes "json_loads bi line = Inr (JObj d)"
    and "map_of d ''id'' = Some (JInt n)"
    and "map_of d ''source'' = Some (JStr s)"
    and "map_of d ''suggestions'' = None"
    and "translate dec = (\<lambda>src sugs. Inr src)"
  shows "\<exists>request. from_json_string bi line = Inr request
           \<and> to_json_obj (respond dec request) = JObj [(''id'', JInt n), (''translation'', JStr s)]
           \<and> to_json_string bi (respond dec request)
               = json_dumps bi (JObj [(''id'', JInt n), (''translation'', JStr s)])"
  using assms
  by (simp add: from_json_string_def from_json_obj_def TranslationRequest_def respond_def
      TranslationResponse_def to_json_obj_def to_json_string_def join_split_space)

theorem roundtrip_identity_witness:
  "json_loads demo_builtins demo_line1 = Inr (JObj [(''id'', JInt 1), (''source'', JStr ''a b c'')])
   \<and> translate (identity_engine 1) = (\<lambda>src sugs. Inr src)
   \<and> (\<exists>request. from_json_string demo_builtins demo_line1 = Inr request
         \<and> req_source request = [''a'', ''b'', ''c'']
         \<and> to_json_obj (respond (identity_engine 1) request)
             = JObj [(''id'', JInt 1), (''translation'', JStr ''a b c'')]
         \<and> to_json_string demo_builtins (respond (identity_engine 1) request)
             = ''{\"id\": 1, \"translation\": \"a b c\"}'')"
proof -
  have l: "json_loads demo_builtins demo_line1
             = Inr (JObj [(''id'', JInt 1), (''source'', JStr ''a b c'')])"
    by (simp add: demo_builtins_def demo_line1_def)
  have t: "translate (identity_engine 1) = (\<lambda>src sugs. Inr src)"
    by (simp add: identity_engine_def)
  have src: "\<And>request. from_json_string demo_builtins demo_line1 = Inr request \<Longrightarrow>
               req_source request = [''a'', ''b'', ''c'']"
    by (auto simp add: from_json_string_def from_json_obj_def TranslationRequest_def l)
  have d: "json_dumps demo_builtins (JObj [(''id'', JInt 1), (''translation'', JStr ''a b c'')])
             = ''{\"id\": 1, \"translation\": \"a b c\"}''"
    by (simp add: demo_builtins_def)
  from roundtrip_identity [OF l _ _ _ t, of 1 "''a b c''"] src d l t
  show ?thesis by auto
qed

text \<open>
  Claim C6. A response built from an exception serializes to one object with the keys
  \<open>id\<close> and \<open>error\<close>; the error object has \<open>type\<close>, and has \<open>message\<close> exactly
  when the text of the exception is not empty.
\<close>

theorem failed_response_json:
  "to_json_obj (TranslationResponse rid None (Some e)) =
     JObj [(''id'', JInt rid),
           (''error'', JObj ((''type'', JStr (exn_type e)) #
                             (if exn_str e = [] then [] else [(''message'', JStr (exn_str e))])))]"
  by (simp add: to_json_obj_def TranslationResponse_def)

theorem failed_response_json_witness:
  "to_json_obj (TranslationResponse 2 None (Some (Exn ''RuntimeError'' ''out of memory''))) =
     JObj [(''id'', JInt 2),
           (''error'', JObj [(''type'', JStr ''RuntimeError''), (''message'', JStr ''out of memory'')])]
   \<and> to_json_obj (TranslationResponse 2 None (Some (Exn ''MemoryError'' ''''))) =
     JObj [(''id'', JInt 2), (''error'', JObj [(''type'', JStr ''MemoryError'')])]"
  using failed_response_json [of 2 "Exn ''RuntimeError'' ''out of memory''"]
    failed_response_json [of 2 "Exn ''MemoryError'' ''''"]
  by simp



lemma parse_suggestion_dict:
  "parse_suggestion bi sobj = Inr sg \<Longrightarrow>
     \<exists>sd. sobj = JObj sd \<and>
       (case map_of sd ''score'' of
          None \<Rightarrow> sug_score sg = PyInt 0
        | Some v \<Rightarrow> \<exists>f. py_float bi v = Inr f \<and> sug_score sg = PyFloat f)"
  by (cases sobj)
     (auto simp add: parse_suggestion_def Suggestion_def ebind_def
           split: option.splits sum.splits if_splits)

lemma parse_suggestions_all2:
  "parse_suggestions bi sobjs = Inr sgs \<Longrightarrow>
     list_all2 (\<lambda>sobj sg. parse_suggestion bi sobj = Inr sg) sobjs sgs"
  by (induction sobjs arbitrary: sgs) (auto simp add: ebind_def split: sum.splits)

text \<open>
  Claim C7. In a parsed request, every suggestion object of the \<open>suggestions\<close> array is a
  dict, and the score of its suggestion is \<open>float(score)\<close> when it has the key \<open>score\<close>
  and the integer 0 when it has not; a suggestion with only \<open>source\<close> and \<open>target\<close>
  parses, with score 0.
\<close>

theorem suggestion_score_default:
  assumes "from_json_obj bi (JObj d) = Inr request"
    and "map_of d ''suggestions'' = Some (JArr sobjs)"
  shows "list_all2
           (\<lambda>sobj sg. \<exists>sd. sobj = JObj sd \<and>
              (case map_of sd ''score'' of
                 None \<Rightarrow> sug_score sg = PyInt 0
               | Some v \<Rightarrow> \<exists>f. py_float bi v = Inr f \<and> sug_score sg = PyFloat f))
           sobjs (req_suggestions request)
         \<and> (\<forall>src tgt. parse_suggestion bi (JObj [(''source'', JStr src), (''target'', JStr tgt)])
                = Inr (Suggestion (split_space src) (split_space tgt) (PyInt 0)))"
proof -
  from assms have "parse_suggestions bi sobjs = Inr (req_suggestions request)"
    by (auto simp add: from_json_obj_def TranslationRequest_def ebind_def
          split: option.splits sum.splits)
  then have "list_all2 (\<lambda>sobj sg. parse_suggestion bi sobj = Inr sg)
               sobjs (req_suggestions request)"
    by (rule parse_suggestions_all2)
  then have "list_all2
           (\<lambda>sobj sg. \<exists>sd. sobj = JObj sd \<and>
              (case map_of sd ''score'' of
                 None \<Rightarrow> sug_score sg = PyInt 0
               | Some v \<Rightarrow> \<exists>f. py_float bi v = Inr f \<and> sug_score sg = PyFloat f))
           sobjs (req_suggestions request)"
    by (rule list_all2_mono) (rule parse_suggestion_dict)
  moreover have "\<forall>src tgt. parse_suggestion bi (JObj [(''source'', JStr src), (''target'', JStr tgt)])
                = Inr (Suggestion (split_space src) (split_space tgt) (PyInt 0))"
    by (simp add: parse_suggestion_def)
  ultimately show ?thesis by simp
qed

theorem suggestion_score_default_witness:
  "from_json_obj demo_builtins demo_suggestions_line_obj
     = Inr \<lparr>req_id = 7, req_source = [''hello'', ''and'', ''goodbye''],
            req_suggestions =
              [\<lparr>sug_source = [''A''], sug_target = [''a''], sug_score = PyFloat 0x3FE0000000000000\<rparr>,
               \<lparr>sug_source = [''x''], sug_target = [''y''], sug_score = PyInt 0\<rparr>]\<rparr>
   \<and> parse_suggestion demo_builtins (JObj [(''source'', JStr ''x''), (''target'', JStr ''y'')])
       = Inr (Suggestion [''x''] [''y''] (PyInt 0))"
proof -
  have p: "from_json_obj demo_builtins demo_suggestions_line_obj
     = Inr \<lparr>req_id = 7, req_source = [''hello'', ''and'', ''goodbye''],
            req_suggestions =
              [\<lparr>sug_source = [''A''], sug_target = [''a''], sug_score = PyFloat 0x3FE0000000000000\<rparr>,
               \<lparr>sug_source = [''x''], sug_target = [''y''], sug_score = PyInt 0\<rparr>]\<rparr>"
    by (simp add: from_json_obj_def demo_suggestions_line_obj_def parse_suggestion_def
          Suggestion_def TranslationRequest_def demo_builtins_def)
  from suggestion_score_default [OF p [unfolded demo_suggestions_line_obj_def]] p
  show ?thesis by simp
qed

lemmas step_defs = main_step_def executor_step_def printer_step_def start_pc_def put_pc_def
  join_pc_def finally_pc_def Let_def

lemma step_length: "step bi dec a s = Some (e, s') \<Longrightarrow> length (workers s') = length (workers s)"
  by (cases a)
     (auto simp add: step_defs split: cpc.splits if_splits list.splits stdin_event.splits
        sum.splits option.splits tstate.splits pyobj.splits)

lemma other_step_main:
  "step bi dec a s = Some (e, s') \<Longrightarrow> a \<noteq> Main \<Longrightarrow> main s' = main s \<and> \<not> is_main_event e \<and> stdin s' = stdin s"
  by (cases a)
     (auto simp add: step_defs split: if_splits list.splits option.splits tstate.splits pyobj.splits)

lemma main_step_event:
  "main_step bi s = Some (e, s') \<Longrightarrow> is_main_event e"
  by (auto simp add: step_defs split: cpc.splits if_splits list.splits stdin_event.splits
        sum.splits option.splits)

lemma join_Some: "join t = Some r \<Longrightarrow> t \<noteq> NotStarted \<Longrightarrow> r = Inr ()"
  by (cases t) auto

lemma started_step:
  "step bi dec a s = Some (e, s') \<Longrightarrow> started s \<Longrightarrow> started s'"
  by (cases a)
     (auto simp add: step_defs started_def split: cpc.splits if_splits list.splits stdin_event.splits
        sum.splits option.splits tstate.splits pyobj.splits dest: set_update_subset_insert [THEN subsetD])

lemma replicate_diff: "k < n \<Longrightarrow> replicate (n - k) x = x # replicate (n - Suc k) x"
  by (cases "n - k") (auto simp add: Suc_diff_Suc [symmetric])

lemma join_started: "started s \<Longrightarrow> k < length (workers s) \<Longrightarrow> join (workers s ! k) \<noteq> Some (Inl e)"
  unfolding started_def by (cases "workers s ! k") (auto dest: nth_mem)

lemma join_printer_started: "started s \<Longrightarrow> join (printer s) \<noteq> Some (Inl e)"
  unfolding started_def by (cases "printer s") auto

lemma close_step:
  assumes st: "main_step bi s = Some (e, s')" and cl: "closing (main s)" and "started s"
    and ok: "pc_ok (length (workers s)) (main s)"
  shows "close_rest (length (workers s)) (main s) = e # close_rest (length (workers s)) (main s')
         \<and> closing (main s') \<and> pc_ok (length (workers s)) (main s')
         \<and> pending (main s') = pending (main s) \<and> stdin s' = stdin s"
proof (cases "main s")
  case (CClearIn p)
  with st show ?thesis by (auto simp add: step_defs close_events_def)
next
  case (CClearOut p)
  with st show ?thesis by (auto simp add: step_defs close_events_def split: if_splits)
next
  case (CPutIn k p)
  with st ok show ?thesis
    by (auto simp add: step_defs replicate_diff split: if_splits)
next
  case (CPutOut p)
  with st show ?thesis by (auto simp add: step_defs split: if_splits)
next
  case (CJoinWorker k p)
  with st ok join_started [OF \<open>started s\<close>, of k] show ?thesis
    by (auto simp add: step_defs upt_conv_Cons split: if_splits option.splits sum.splits)
next
  case (CJoinPrinter p)
  with st join_printer_started [OF \<open>started s\<close>] show ?thesis
    by (auto simp add: step_defs split: if_splits option.splits sum.splits)
next
  case (CDone p)
  with st show ?thesis by (simp add: step_defs)
qed (use cl in simp_all)

lemma close_trace:
  assumes "exec bi dec sched s = Some (tr, s')" and "closing (main s)" and "started s"
    and "pc_ok (length (workers s)) (main s)"
  shows "close_rest (length (workers s)) (main s)
           = filter is_main_event tr @ close_rest (length (workers s)) (main s')
         \<and> closing (main s') \<and> pending (main s') = pending (main s) \<and> stdin s' = stdin s
         \<and> started s' \<and> length (workers s') = length (workers s)
         \<and> pc_ok (length (workers s)) (main s')"
  using assms
proof (induction sched arbitrary: s tr)
  case Nil
  then show ?case by simp
next
  case (Cons a sched)
  from Cons.prems(1) obtain e s1 es where
    st: "step bi dec a s = Some (e, s1)" and ex: "exec bi dec sched s1 = Some (es, s')"
    and tr: "tr = e # es"
    by (auto split: option.splits)
  have len: "length (workers s1) = length (workers s)" using st by (rule step_length)
  have st1: "started s1" using st Cons.prems(3) by (rule started_step)
  show ?case
  proof (cases "a = Main")
    case True
    with st have ms: "main_step bi s = Some (e, s1)" by simp
    from close_step [OF ms Cons.prems(2,3,4)] main_step_event [OF ms]
      Cons.IH [OF ex _ st1] len tr
    show ?thesis by simp
  next
    case False
    from other_step_main [OF st False] Cons.IH [OF ex _ st1] Cons.prems(2,4) len tr
    show ?thesis by simp
  qed
qed

lemma is_request_execute: "is_request x \<Longrightarrow> \<exists>r. x = PyRequest r \<and> execute dec x = Some (respond dec r)"
  by (cases x) auto

lemma wf_main_step: "main_step bi s = Some (e, s') \<Longrightarrow> wf s \<Longrightarrow> wf s'"
  by (auto simp add: step_defs wf_def split: cpc.splits if_splits list.splits stdin_event.splits
        sum.splits option.splits dest!: set_update_subset_insert [THEN subsetD])

lemma holding_request:
  "\<forall>w\<in>set ws. holds_only is_request w \<Longrightarrow> i < length ws \<Longrightarrow> ws ! i = Holding x \<Longrightarrow>
     \<exists>r. x = PyRequest r"
  using is_request_execute nth_mem by fastforce

lemma wf_executor_step:
  assumes st: "executor_step dec i s = Some (e, s')" and wf: "wf s"
  shows "wf s'"
proof (cases "workers s ! i")
  case AtGet
  with st wf show ?thesis
    by (auto simp add: executor_step_def wf_def split: if_splits list.splits
          dest!: set_update_subset_insert [THEN subsetD])
next
  case (Holding x)
  from st have i: "i < length (workers s)"
    by (auto simp add: executor_step_def split: if_splits)
  from wf have "\<forall>w\<in>set (workers s). holds_only is_request w" by (simp add: wf_def)
  from holding_request [OF this i Holding] obtain r where "x = PyRequest r" ..
  with st wf Holding show ?thesis
    by (auto simp add: executor_step_def wf_def split: if_splits
          dest!: set_update_subset_insert [THEN subsetD])
qed (use st in \<open>auto simp add: executor_step_def split: if_splits\<close>)

lemma wf_printer_step: "printer_step bi s = Some (e, s') \<Longrightarrow> wf s \<Longrightarrow> wf s'"
  by (auto simp add: printer_step_def wf_def split: if_splits list.splits option.splits tstate.splits
        pyobj.splits)

lemma wf_step: "step bi dec a s = Some (e, s') \<Longrightarrow> wf s \<Longrightarrow> wf s'"
  by (cases a) (auto intro: wf_main_step wf_executor_step wf_printer_step)

lemma wf_init: "wf (MainController dec input)"
  by (simp add: wf_def MainController_def)

lemma wf_exec: "exec bi dec sched s = Some (tr, s') \<Longrightarrow> wf s \<Longrightarrow> wf s'"
proof (induction sched arbitrary: s tr)
  case Nil
  then show ?case by simp
next
  case (Cons a sched)
  from Cons.prems(1) obtain e s1 es where
    st: "step bi dec a s = Some (e, s1)" and ex: "exec bi dec sched s1 = Some (es, s')"
    by (auto split: option.splits)
  from wf_step [OF st Cons.prems(2)] Cons.IH [OF ex] show ?case by blast
qed

lemma gets_of_other [simp]: "j \<noteq> i \<Longrightarrow> gets_of i (WorkerGet j x # es) = gets_of i es"
  by (cases x) auto

lemma gets_of_pill [simp]: "gets_of i (WorkerGet j (PyStr p) # es) = gets_of i es"
  by simp






lemmas demo_defs = demo_builtins_def identity_engine_def failing_engine_def MainController_def
  demo_line1_def demo_line2_def demo_bad_line_def served_schedule_def drain_schedule_def
  from_json_string_def from_json_obj_def TranslationRequest_def respond_def TranslationResponse_def
  to_json_string_def to_json_obj_def POISON_PILL_def







lemmas run_defs = demo_defs step_defs demo_request1_def demo_request2_def demo_response1_def
  demo_error2_def fault_schedule_def fault_trace_def drain_trace_def drain_final_def

lemma fault_run:
  "map_option fst (exec demo_builtins (failing_engine 1) fault_schedule
      (MainController (failing_engine 1) [Line demo_line1, Line demo_line2])) = Some fault_trace"
  by (simp add: run_defs)


lemmas run_defs2 = run_defs fault_final_def holding_state_def holding_schedule_def


lemma put_events:
  assumes "exec bi dec sched s = Some (tr, s')"
  shows "(\<forall>x. PutIn x \<in> set tr \<longrightarrow> is_request x \<or> x = PyStr POISON_PILL)
       \<and> (\<forall>x. PutOut x \<in> set tr \<longrightarrow> x = PyStr POISON_PILL)"
  using assms
proof (induction sched arbitrary: s tr)
  case Nil
  then show ?case by simp
next
  case (Cons a sched)
  from Cons.prems(1) obtain e s1 es where
    st: "step bi dec a s = Some (e, s1)" and ex: "exec bi dec sched s1 = Some (es, s')"
    and tr: "tr = e # es"
    by (auto split: option.splits)
  have "(\<forall>x. e = PutIn x \<longrightarrow> is_request x \<or> x = PyStr POISON_PILL)
       \<and> (\<forall>x. e = PutOut x \<longrightarrow> x = PyStr POISON_PILL)"
    using st
    by (cases a) (auto simp add: step_defs split: cpc.splits if_splits list.splits
          stdin_event.splits sum.splits option.splits tstate.splits pyobj.splits)
  with Cons.IH [OF ex] tr show ?case by auto
qed

lemma is_poison_pill_iff: "is_poison_pill x \<longleftrightarrow> x = PyStr ''__POISON_PILL__''"
  by (cases x) (auto simp add: POISON_PILL_def)

text \<open>
  Claim C2, as amended. The shutdown marker is the string \<open>'__POISON_PILL__'\<close>, a plain
  string value. In every run from the constructor's state, each element put on the request
  queue is a request object or that string, each element put on the response queue is a
  response object or that string, the test of the consumers is true of that string only,
  so never of a payload, and no thread dies of a wrongly typed element.
\<close>

theorem queue_elements:
  assumes ex: "exec bi dec sched (MainController dec input) = Some (tr, s)"
  shows "(\<forall>x\<in>set (in_queue s). is_request x \<or> x = PyStr POISON_PILL)
       \<and> (\<forall>x\<in>set (out_queue s). is_response x \<or> x = PyStr POISON_PILL)
       \<and> (\<forall>x. PutIn x \<in> set tr \<longrightarrow> is_request x \<or> x = PyStr POISON_PILL)
       \<and> (\<forall>x. PutOut x \<in> set tr \<longrightarrow> x = PyStr POISON_PILL)
       \<and> (\<forall>x. is_poison_pill x \<longleftrightarrow> x = PyStr ''__POISON_PILL__'')
       \<and> (\<forall>x. is_request x \<or> is_response x \<longrightarrow> \<not> is_poison_pill x)
       \<and> Died \<notin> set (workers s) \<and> printer s \<noteq> Died"
proof -
  have wfs: "wf s" using ex wf_init by (rule wf_exec)
  have d: "Died \<notin> set (workers s)"
  proof
    assume "Died \<in> set (workers s)"
    with wfs have "holds_only is_request Died" unfolding wf_def by blast
    then show False by simp
  qed
  have p: "printer s \<noteq> Died"
  proof
    assume "printer s = Died"
    with wfs have "holds_only is_response Died" by (simp add: wf_def)
    then show False by simp
  qed
  have np: "\<forall>x. is_request x \<or> is_response x \<longrightarrow> \<not> is_poison_pill x"
  proof (intro allI impI)
    fix x assume "is_request x \<or> is_response x"
    then show "\<not> is_poison_pill x" by (cases x) auto
  qed
  from wfs put_events [OF ex] is_poison_pill_iff d p np show ?thesis
    unfolding wf_def by blast
qed

theorem queue_elements_witness:
  "exec demo_builtins (failing_engine 1) fault_schedule
     (MainController (failing_engine 1) [Line demo_line1, Line demo_line2])
   = Some (fault_trace, fault_final)
   \<and> PutIn (PyRequest demo_request1) \<in> set fault_trace
   \<and> PutIn (PyStr ''__POISON_PILL__'') \<in> set fault_trace
   \<and> PutOut (PyStr ''__POISON_PILL__'') \<in> set fault_trace
   \<and> \<not> is_poison_pill (PyRequest (TranslationRequest 9 [''__POISON_PILL__''] None))
   \<and> Died \<notin> set (workers fault_final)"
proof -
  have run: "exec demo_builtins (failing_engine 1) fault_schedule
     (MainController (failing_engine 1) [Line demo_line1, Line demo_line2])
   = Some (fault_trace, fault_final)"
    by (simp add: run_defs2)
  have m: "PutIn (PyRequest demo_request1) \<in> set fault_trace"
    "PutIn (PyStr ''__POISON_PILL__'') \<in> set fault_trace"
    "PutOut (PyStr ''__POISON_PILL__'') \<in> set fault_trace"
    by (simp_all add: fault_trace_def)
  from queue_elements [OF run] run m show ?thesis by simp
qed

text \<open>
  Claim C2 as stated fails: what \<open>_close\<close> puts on a queue is the raw string, and a
  worker that dequeues the raw string returns.
\<close>

theorem poison_pill_is_string_counterexample:
  "main_step demo_builtins (drain_final\<lparr>main := CPutOut None\<rparr>)
     = Some (PutOut (PyStr ''__POISON_PILL__''),
             drain_final\<lparr>out_queue := [PyResponse demo_response1, PyStr ''__POISON_PILL__''],
                          main := CJoinWorker 0 None\<rparr>)
   \<and> executor_step (identity_engine 1) 0
        (drain_final\<lparr>in_queue := [PyStr ''__POISON_PILL__''], workers := [AtGet]\<rparr>)
     = Some (WorkerGet 0 (PyStr ''__POISON_PILL__''),
             drain_final\<lparr>in_queue := [], workers := [Returned]\<rparr>)"
  by (simp add: run_defs2)








lemma close_rest_puts:
  "PutIn x \<in> set (close_rest n pc) \<or> PutOut x \<in> set (close_rest n pc) \<Longrightarrow> x = PyStr POISON_PILL"
  by (cases pc) (auto simp add: close_events_def)







lemma closing_puts:
  assumes ex: "exec bi dec sched s = Some (tr, s')" and cl: "closing (main s)"
    and sd: "started s" and ok: "pc_ok (length (workers s)) (main s)"
    and x: "PutIn x \<in> set tr \<or> PutOut x \<in> set tr"
  shows "x = PyStr POISON_PILL"
proof -
  let ?n = "length (workers s)"
  from close_trace [OF ex cl sd ok]
  have eq: "close_rest ?n (main s) = filter is_main_event tr @ close_rest ?n (main s')" by simp
  from x have "PutIn x \<in> set (filter is_main_event tr) \<or> PutOut x \<in> set (filter is_main_event tr)"
    by auto
  then have "PutIn x \<in> set (close_rest ?n (main s)) \<or> PutOut x \<in> set (close_rest ?n (main s))"
    unfolding eq by auto
  then show ?thesis by (rule close_rest_puts)
qed











lemma py_split_Inr: "py_split v = Inr ws \<Longrightarrow> \<exists>src. v = JStr src"
  by (cases v) auto

lemma malformed_fails: "malformed bi line \<Longrightarrow> \<exists>e. from_json_string bi line = Inl e"
  by (auto simp add: malformed_def from_json_string_def from_json_obj_def ebind_def
        split: sum.splits json.splits option.splits dest: py_split_Inr)

lemma raised_exec:
  assumes "exec bi dec sched s = Some (tr, s')" and "closing (main s)" and "started s"
    and "pc_ok (length (workers s)) (main s)" and "pending (main s) = Some e"
  shows "(\<forall>r. PutIn (PyRequest r) \<notin> set tr) \<and> stdin s' = stdin s
       \<and> (\<forall>p. main s' = CDone p \<longrightarrow> p = Some e)"
proof -
  from close_trace [OF assms(1-4)] assms(5)
  have "stdin s' = stdin s" and p: "pending (main s') = Some e" by simp_all
  moreover have "\<forall>r. PutIn (PyRequest r) \<notin> set tr"
  proof (intro allI notI)
    fix r assume "PutIn (PyRequest r) \<in> set tr"
    with closing_puts [OF assms(1-4), of "PyRequest r"] show False by simp
  qed
  moreover from p have "\<forall>p. main s' = CDone p \<longrightarrow> p = Some e" by auto
  ultimately show ?thesis by blast
qed

lemma malformed_exec:
  assumes "exec bi dec sched s = Some (tr, s')" and "main s = CServe" and "started s"
    and "stdin s = Line line # rest" and "line \<noteq> []" and "from_json_string bi line = Inl e"
    and "exn_type e \<noteq> ''KeyboardInterrupt''"
  shows "(\<forall>r. PutIn (PyRequest r) \<notin> set tr) \<and> (stdin s' = stdin s \<or> stdin s' = rest)
       \<and> (\<forall>p. main s' = CDone p \<longrightarrow> p = Some e \<and> stdin s' = rest)"
  using assms(1-4)
proof (induction sched arbitrary: s tr)
  case Nil
  then show ?case by auto
next
  case (Cons a sched)
  from Cons.prems(1) obtain ev s1 es where
    st: "step bi dec a s = Some (ev, s1)" and ex: "exec bi dec sched s1 = Some (es, s')"
    and tr: "tr = ev # es"
    by (auto split: option.splits)
  show ?case
  proof (cases "a = Main")
    case False
    from other_step_main [OF st False] Cons.prems(2,4)
    have "main s1 = CServe" "stdin s1 = Line line # rest" "\<not> is_main_event ev" by simp_all
    with Cons.IH [OF ex _ started_step [OF st Cons.prems(3)]] Cons.prems(4) tr
    show ?thesis by auto
  next
    case True
    with st Cons.prems(2,4) assms(5-7)
    have ev: "ev = Raised e" and s1: "s1 = s\<lparr>stdin := rest, main := CClearIn (Some e)\<rparr>"
      by (auto simp add: step_defs)
    have c: "closing (main s1)" "started s1" "pc_ok (length (workers s1)) (main s1)"
      "pending (main s1) = Some e"
      using s1 Cons.prems(3) by (simp_all add: started_def)
    from raised_exec [OF ex c] ev s1 tr show ?thesis by simp
  qed
qed

text \<open>
  Claim C8. A line that is not a JSON object with an integer-coercible \<open>id\<close> and a string
  \<open>source\<close> makes \<open>from_json_string\<close> raise. Read in the serve loop, the exception
  leaves the loop: the line is answered by no request on the queue, no later line is read,
  and \<open>serve_forever\<close> ends, after \<open>_close\<close>, by raising that exception.
\<close>

theorem malformed_line_propagates:
  assumes mal: "malformed bi line" and ne: "line \<noteq> []"
    and m: "main s = CServe" and sd: "started s" and inp: "stdin s = Line line # rest"
    and ki: "\<forall>e. from_json_string bi line = Inl e \<longrightarrow> exn_type e \<noteq> ''KeyboardInterrupt''"
  shows "\<exists>e. from_json_string bi line = Inl e
           \<and> main_step bi s = Some (Raised e, s\<lparr>stdin := rest, main := CClearIn (Some e)\<rparr>)
           \<and> (\<forall>sched tr s'. exec bi dec sched s = Some (tr, s') \<longrightarrow>
                 (\<forall>r. PutIn (PyRequest r) \<notin> set tr)
                 \<and> (stdin s' = stdin s \<or> stdin s' = rest)
                 \<and> (\<forall>p. main s' = CDone p \<longrightarrow> p = Some e \<and> stdin s' = rest))"
proof -
  from malformed_fails [OF mal] obtain e where e: "from_json_string bi line = Inl e" ..
  with ki have k: "exn_type e \<noteq> ''KeyboardInterrupt''" by blast
  have "main_step bi s = Some (Raised e, s\<lparr>stdin := rest, main := CClearIn (Some e)\<rparr>)"
    using m inp ne e k by (simp add: step_defs)
  moreover have "\<forall>sched tr s'. exec bi dec sched s = Some (tr, s') \<longrightarrow>
                 (\<forall>r. PutIn (PyRequest r) \<notin> set tr)
                 \<and> (stdin s' = stdin s \<or> stdin s' = rest)
                 \<and> (\<forall>p. main s' = CDone p \<longrightarrow> p = Some e \<and> stdin s' = rest)"
    using malformed_exec [OF _ m sd inp ne e k] by blast
  ultimately show ?thesis using e by blast
qed

lemmas run_defs3 = run_defs2 bad_line_schedule_def bad_line_trace_def bad_line_final_def
  serving_state_def KeyError_def

theorem malformed_line_propagates_witness:
  "malformed demo_builtins demo_bad_line \<and> demo_bad_line \<noteq> []
   \<and> main serving_state = CServe \<and> started serving_state
   \<and> stdin serving_state = Line demo_bad_line # [Line demo_line2]
   \<and> from_json_string demo_builtins demo_bad_line = Inl (Exn ''KeyError'' ''source'')
   \<and> exec demo_builtins (identity_engine 1) (drop 7 bad_line_schedule) serving_state
       = Some (drop 7 bad_line_trace, bad_line_final)
   \<and> main bad_line_final = CDone (Some (Exn ''KeyError'' ''source''))
   \<and> stdin bad_line_final = [Line demo_line2]"
proof -
  have p: "from_json_string demo_builtins demo_bad_line = Inl (Exn ''KeyError'' ''source'')"
    by (simp add: run_defs3)
  have h: "malformed demo_builtins demo_bad_line" "demo_bad_line \<noteq> []"
    "main serving_state = CServe" "started serving_state"
    "stdin serving_state = Line demo_bad_line # [Line demo_line2]"
    by (simp_all add: malformed_def run_defs3 started_def)
  have k: "\<forall>e. from_json_string demo_builtins demo_bad_line = Inl e
             \<longrightarrow> exn_type e \<noteq> ''KeyboardInterrupt''"
    by (simp add: p)
  have run: "exec demo_builtins (identity_engine 1) (drop 7 bad_line_schedule) serving_state
       = Some (drop 7 bad_line_trace, bad_line_final)"
    by (simp add: run_defs3)
  from malformed_line_propagates [OF h k, of "identity_engine 1"] obtain e where
    e: "from_json_string demo_builtins demo_bad_line = Inl e"
    and every: "\<And>sched tr s'.
       exec demo_builtins (identity_engine 1) sched serving_state = Some (tr, s') \<Longrightarrow>
       (\<forall>p. main s' = CDone p \<longrightarrow> p = Some e \<and> stdin s' = [Line demo_line2])"
    by blast
  have m: "main bad_line_final = CDone (Some (Exn ''KeyError'' ''source''))"
    by (simp add: bad_line_final_def)
  from every [OF run] m have "stdin bad_line_final = [Line demo_line2]" by blast
  with p h run m show ?thesis by blast
qed


end
